theory Spec2Isabelle
  imports Complex_Main "HOL-Library.Char_ord" "HOL-Library.List_Lexorder"
    "HOL-Library.Product_Lexorder" "HOL-Library.Multiset"
begin

section \<open>Agent: power probe (exo\_agent/health\_monitor.py, LaptopPowerManager)\<close>

text \<open>
  Percentages, durations and timestamps are Python floats that the code only compares
  with constants and subtracts; they are modelled as reals, timestamps as seconds.
  The result of \<^verbatim>\<open>psutil.sensors_battery()\<close> is an optional named tuple; \<open>None\<close>
  below stands for "no battery" as well as for the probe raising, since
  \<^verbatim>\<open>get_battery_info\<close> answers both with the same default dictionary.
  \<^verbatim>\<open>power_plugged\<close> may be \<open>None\<close> in psutil (unknown), and \<^verbatim>\<open>not None\<close> is true.
\<close>

record sbattery =
  percent :: real
  plugged :: "bool option"
  secsleft :: int

record battery_info =
  on_battery :: bool
  battery_level :: real
  power_plugged :: "bool option"
  time_left :: "int option"

definition get_battery_info :: "sbattery option \<Rightarrow> battery_info" where
  "get_battery_info probe =
     (case probe of
        Some battery \<Rightarrow>
          \<lparr>on_battery = (plugged battery \<noteq> Some True),
           battery_level = percent battery,
           power_plugged = plugged battery,
           time_left = (if secsleft battery \<noteq> - 1 then Some (secsleft battery) else None)\<rparr>
      | None \<Rightarrow>
          \<lparr>on_battery = False, battery_level = 100, power_plugged = Some True,
           time_left = None\<rparr>)"

definition should_throttle_compute :: "sbattery option \<Rightarrow> bool" where
  "should_throttle_compute probe =
     (let battery_info = get_battery_info probe
      in on_battery battery_info \<and> battery_level battery_info < 20)"

record compute_limits =
  max_cpu_usage :: int
  max_memory_usage :: int
  max_concurrent_tasks :: int

definition get_compute_limits :: "sbattery option \<Rightarrow> compute_limits" where
  "get_compute_limits probe =
     (let battery_info = get_battery_info probe
      in if on_battery battery_info then
           (if battery_level battery_info < 20 then
              \<lparr>max_cpu_usage = 30, max_memory_usage = 50, max_concurrent_tasks = 1\<rparr>
            else if battery_level battery_info < 50 then
              \<lparr>max_cpu_usage = 50, max_memory_usage = 70, max_concurrent_tasks = 2\<rparr>
            else
              \<lparr>max_cpu_usage = 70, max_memory_usage = 80, max_concurrent_tasks = 3\<rparr>)
         else
           \<lparr>max_cpu_usage = 90, max_memory_usage = 90, max_concurrent_tasks = 5\<rparr>)"

section \<open>Agent: idle detection (HealthMonitor.detect\_idle\_state)\<close>

record idle_state =
  is_idle :: bool
  idle_duration :: real
  cpu_threshold :: real
  memory_threshold :: real
  user_active :: bool
  last_activity :: real

text \<open>The fields of \<^verbatim>\<open>HealthMonitor\<close> that the readiness path reads or writes.\<close>

record health_monitor =
  idle_threshold_cpu :: real
  idle_threshold_duration :: real
  last_user_activity :: real
  idle_start_time :: "real option"
  currently_idle :: bool
  gpu_enabled :: bool

text \<open>\<^verbatim>\<open>HealthMonitor.__init__\<close>, at construction time \<open>t\<close> on a machine with or without CUDA.\<close>

definition health_monitor_init :: "real \<Rightarrow> bool \<Rightarrow> health_monitor" where
  "health_monitor_init t cuda =
     \<lparr>idle_threshold_cpu = 10, idle_threshold_duration = 300, last_user_activity = t,
      idle_start_time = None, currently_idle = False, gpu_enabled = cuda\<rparr>"

text \<open>
  \<^verbatim>\<open>_check_user_activity\<close>: on each platform the probe either measures the time since the
  last input in milliseconds and answers \<^verbatim>\<open>idle_ms < 30000\<close>, or it has no measurement;
  every path without a measurement (the process-list fallback, the default, an exception)
  returns \<open>True\<close>.
\<close>

definition check_user_activity :: "real option \<Rightarrow> bool" where
  "check_user_activity idle_ms =
     (case idle_ms of Some ms \<Rightarrow> ms < 30000 | None \<Rightarrow> True)"

text \<open>
  One sample of the probes read by \<^verbatim>\<open>detect_idle_state\<close>. The function's
  \<^verbatim>\<open>try\<close> block reads all probes before it touches the monitor, so a raising probe
  (no sample, \<open>None\<close>) leaves the monitor as it was and yields the fallback state.
\<close>

record idle_sample =
  sample_cpu :: real
  sample_idle_ms :: "real option"
  sample_memory :: real

definition low_load :: "health_monitor \<Rightarrow> idle_sample \<Rightarrow> bool" where
  "low_load m s = (sample_cpu s < idle_threshold_cpu m \<and> sample_memory s < 70)"

definition detect_idle_state ::
  "health_monitor \<Rightarrow> real \<Rightarrow> idle_sample option \<Rightarrow> idle_state \<times> health_monitor" where
  "detect_idle_state m current_time sample =
     (case sample of
        None \<Rightarrow>
          (\<lparr>is_idle = False, idle_duration = 0, cpu_threshold = idle_threshold_cpu m,
            memory_threshold = 70, user_active = True, last_activity = current_time\<rparr>, m)
      | Some s \<Rightarrow>
          (let active = check_user_activity (sample_idle_ms s);
               m' =
                 (if active then
                    m\<lparr>last_user_activity := current_time, idle_start_time := None,
                      currently_idle := False\<rparr>
                  else if low_load m s \<and> \<not> currently_idle m then
                    (case idle_start_time m of
                       None \<Rightarrow> m\<lparr>idle_start_time := Some current_time\<rparr>
                     | Some t0 \<Rightarrow>
                         if current_time - t0 > idle_threshold_duration m
                         then m\<lparr>currently_idle := True\<rparr> else m)
                  else if \<not> low_load m s then
                    m\<lparr>idle_start_time := None, currently_idle := False\<rparr>
                  else m);
               duration =
                 (case idle_start_time m' of None \<Rightarrow> 0 | Some t0 \<Rightarrow> current_time - t0)
           in (\<lparr>is_idle = currently_idle m', idle_duration = duration,
                cpu_threshold = idle_threshold_cpu m', memory_threshold = 70,
                user_active = active, last_activity = last_user_activity m'\<rparr>, m')))"

section \<open>Agent: readiness evaluation (HealthMonitor.get\_ai\_compute\_readiness)\<close>

text \<open>
  The score computation of \<^verbatim>\<open>get_ai_compute_readiness\<close> (the three
  \<^verbatim>\<open>readiness_score += ...\<close> blocks), as a function of the values the blocks read.
\<close>

definition compute_readiness_score :: "idle_state \<Rightarrow> battery_info \<Rightarrow> real \<Rightarrow> real \<Rightarrow> int" where
  "compute_readiness_score idle battery cpu_usage memory_usage =
     (let score0 = 0;
          score1 =
            (if is_idle idle then
               (if idle_duration idle > 1800 then score0 + 40
                else if idle_duration idle > 600 then score0 + 30
                else score0 + 20)
             else score0 + 5);
          score2 =
            (if \<not> on_battery battery then score1 + 30
             else if battery_level battery > 80 then score1 + 25
             else if battery_level battery > 50 then score1 + 15
             else if battery_level battery > 20 then score1 + 5
             else score1);
          score3 =
            (if cpu_usage < 20 \<and> memory_usage < 50 then score2 + 30
             else if cpu_usage < 50 \<and> memory_usage < 70 then score2 + 20
             else if cpu_usage < 80 \<and> memory_usage < 85 then score2 + 10
             else score2)
      in score3)"

text \<open>
  \<^verbatim>\<open>_get_compute_recommendations\<close>; it samples CPU and memory again, so the two fresh
  readings are arguments.
\<close>

definition get_compute_recommendations ::
  "int \<Rightarrow> idle_state \<Rightarrow> battery_info \<Rightarrow> real \<Rightarrow> real \<Rightarrow> string list" where
  "get_compute_recommendations score idle battery cpu_now memory_now =
     (let r1 =
            (if score < 30 then [''System is busy - not ideal for AI compute'']
             else if score < 60 then
               [''System has limited availability - light AI tasks only'']
             else []);
          r2 =
            (if \<not> is_idle idle then
               r1 @ [''Wait for system to be idle for better performance'']
             else if idle_duration idle < 600 then
               r1 @ [''System recently active - monitor for stability'']
             else r1);
          r3 =
            (if on_battery battery then
               (if battery_level battery < 20 then
                  r2 @ [''Critical battery level - avoid AI compute'']
                else if battery_level battery < 50 then
                  r2 @ [''Consider connecting to power for intensive tasks'']
                else r2)
             else r2);
          r4 =
            (if cpu_now > 80 then
               r3 @ [''High CPU usage - may impact AI task performance'']
             else r3);
          r5 =
            (if memory_now > 85 then
               r4 @ [''High memory usage - may limit model size'']
             else r4)
      in if r5 = [] \<and> score \<ge> 60 then [''System ready for AI compute tasks''] else r5)"

text \<open>
  Everything one call of \<^verbatim>\<open>get_ai_compute_readiness\<close> reads from the machine, in the
  order of the reads: the idle detector's sample, the battery for
  \<^verbatim>\<open>get_battery_info\<close>, the battery again for \<^verbatim>\<open>get_compute_limits\<close>, CPU and memory
  for the score, the battery a third time for \<^verbatim>\<open>should_throttle_compute\<close>, and CPU and
  memory once more for the recommendations.
\<close>

record machine_reads =
  read_time :: real
  read_idle :: "idle_sample option"
  read_battery :: "sbattery option"
  read_battery_limits :: "sbattery option"
  read_cpu :: real
  read_memory :: real
  read_battery_throttle :: "sbattery option"
  read_cpu_advice :: real
  read_memory_advice :: real

record idle_summary =
  summary_is_idle :: bool
  summary_idle_duration :: real
  summary_user_active :: bool

record resources =
  cpu_usage :: real
  memory_usage :: real
  gpu_available :: bool

record readiness =
  ready_for_ai :: bool
  readiness_score :: int
  idle_state :: idle_summary
  power_state :: battery_info
  compute_limits :: compute_limits
  current_resources :: resources
  recommendations :: "string list"

definition get_ai_compute_readiness ::
  "health_monitor \<Rightarrow> machine_reads \<Rightarrow> readiness \<times> health_monitor" where
  "get_ai_compute_readiness m env =
     (let (idle, m') = detect_idle_state m (read_time env) (read_idle env);
          battery = get_battery_info (read_battery env);
          limits = get_compute_limits (read_battery_limits env);
          score = compute_readiness_score idle battery (read_cpu env) (read_memory env);
          ready = (score \<ge> 60 \<and> \<not> should_throttle_compute (read_battery_throttle env))
      in (\<lparr>ready_for_ai = ready,
           readiness_score = score,
           idle_state =
             \<lparr>summary_is_idle = is_idle idle, summary_idle_duration = idle_duration idle,
              summary_user_active = user_active idle\<rparr>,
           power_state = battery,
           compute_limits = limits,
           current_resources =
             \<lparr>cpu_usage = read_cpu env, memory_usage = read_memory env,
              gpu_available = gpu_enabled m'\<rparr>,
           recommendations =
             get_compute_recommendations score idle battery
               (read_cpu_advice env) (read_memory_advice env)\<rparr>, m'))"

text \<open>
  Successive calls of \<^verbatim>\<open>detect_idle_state\<close> on one monitor, each with the time of the
  call and what the probes returned.
\<close>

fun detect_idle_states :: "health_monitor \<Rightarrow> (real \<times> idle_sample option) list \<Rightarrow> health_monitor" where
  "detect_idle_states m [] = m"
| "detect_idle_states m ((current_time, sample) # calls) =
     detect_idle_states (snd (detect_idle_state m current_time sample)) calls"

section \<open>Agent: the execute endpoint (exo\_agent/agent.py, execute\_task)\<close>

text \<open>
  A response is a JSON object: the keys in the order the code writes them, each with its
  value. The inference engine is an opaque collaborator: a function from the task it is
  given to a result, or to the message of the exception it raises (\<open>Inl\<close>).
\<close>

datatype 'r json =
  Text string | Score int | Advice "string list" | Caps compute_limits | Seconds real |
  Output 'r

record 'p task_data =
  task_id :: "string option"
  task_payload :: 'p
  task_compute_limits :: "compute_limits option"

record task_record =
  recorded_task_id :: "string option"
  recorded_status :: string
  recorded_duration :: real

text \<open>\<^verbatim>\<open>HealthMonitor.record_task\<close> on the task history, which keeps the newest 1000 records.\<close>

definition max_history :: nat where
  "max_history = 1000"

definition record_task ::
  "task_record list \<Rightarrow> string option \<Rightarrow> string \<Rightarrow> real \<Rightarrow> task_record list" where
  "record_task task_history tid status duration =
     (let history = task_history @
            [\<lparr>recorded_task_id = tid, recorded_status = status, recorded_duration = duration\<rparr>]
      in if length history > max_history
         then drop (length history - max_history) history else history)"

text \<open>
  The state of the agent process that \<^verbatim>\<open>execute_task\<close> touches: the health monitor with
  its task history, and the tasks handed to the inference engine so far.
\<close>

record 'p agent =
  monitor :: health_monitor
  task_history :: "task_record list"
  engine_calls :: "'p task_data list"

definition execute_task ::
  "('p task_data \<Rightarrow> string + 'r) \<Rightarrow> 'p agent \<Rightarrow> machine_reads \<Rightarrow> real \<Rightarrow> 'p task_data \<Rightarrow>
     (string \<times> 'r json) list \<times> 'p agent" where
  "execute_task process_task a env duration task =
     (let (readiness, m') = get_ai_compute_readiness (monitor a) env;
          a1 = a\<lparr>monitor := m'\<rparr>
      in if \<not> ready_for_ai readiness then
           ([(''status'', Text ''rejected''),
             (''error'', Text ''System not ready for AI compute''),
             (''readiness_score'', Score (readiness_score readiness)),
             (''recommendations'', Advice (recommendations readiness))], a1)
         else
           (let tid = task_id task;
                limits = compute_limits readiness;
                task' = task\<lparr>task_compute_limits := Some limits\<rparr>;
                a2 = a1\<lparr>engine_calls := engine_calls a1 @ [task']\<rparr>
            in case process_task task' of
                 Inr result \<Rightarrow>
                   ([(''status'', Text ''completed''),
                     (''result'', Output result),
                     (''duration'', Seconds duration),
                     (''compute_limits_used'', Caps limits)],
                    a2\<lparr>task_history := record_task (task_history a2) tid ''completed'' duration\<rparr>)
               | Inl e \<Rightarrow>
                   ([(''status'', Text ''failed''),
                     (''error'', Text e),
                     (''duration'', Seconds duration)],
                    a2\<lparr>task_history := record_task (task_history a2) tid ''failed'' duration\<rparr>)))"

section \<open>Agent: the main loop (exo\_agent/agent.py, main\_loop)\<close>

text \<open>
  \<^verbatim>\<open>heartbeat\<close> and \<^verbatim>\<open>register_agent\<close> catch every exception and return a boolean, so
  one iteration of the loop is determined by what \<^verbatim>\<open>heartbeat\<close> returns and, when the loop
  calls it, by what \<^verbatim>\<open>register_agent\<close> returns; or the iteration is cut short by
  \<^verbatim>\<open>KeyboardInterrupt\<close>, the only exception that leaves the loop. The readiness check
  after the heartbeat changes neither the counter nor the loop. The loop's state keeps the
  counter, the results of the re-registrations attempted so far, and whether the loop has
  been left.
\<close>

datatype tick = KeyboardInterrupt | Heartbeat bool bool

record agent_loop =
  consecutive_failures :: int
  reregistrations :: "bool list"
  exited :: bool

definition max_consecutive_failures :: int where
  "max_consecutive_failures = 5"

fun loop_body :: "agent_loop \<Rightarrow> tick \<Rightarrow> agent_loop" where
  "loop_body l KeyboardInterrupt = (if exited l then l else l\<lparr>exited := True\<rparr>)"
| "loop_body l (Heartbeat heartbeat_ok register_ok) =
     (if exited l then l
      else if heartbeat_ok then l\<lparr>consecutive_failures := 0\<rparr>
      else
        (let failures = consecutive_failures l + 1
         in if failures \<ge> max_consecutive_failures then
              l\<lparr>consecutive_failures := 0, reregistrations := reregistrations l @ [register_ok]\<rparr>
            else l\<lparr>consecutive_failures := failures\<rparr>))"

text \<open>
  \<^verbatim>\<open>main_loop\<close>: the start-up registration, whose failure returns before the loop is
  entered (\<open>None\<close>), then the iterations. The loop has no exit of its own, so a run is
  given by the finite list of iterations observed.
\<close>

definition main_loop :: "bool \<Rightarrow> tick list \<Rightarrow> agent_loop option" where
  "main_loop registered ticks =
     (if \<not> registered then None
      else Some (foldl loop_body
                  \<lparr>consecutive_failures = 0, reregistrations = [], exited = False\<rparr> ticks))"

section \<open>Hub: node selection (exo\_hub/services/distributed\_scheduler.py)\<close>

text \<open>
  A node is a dictionary; the scheduler reads the keys below, the last four with
  \<^verbatim>\<open>node.get(key, default)\<close>, so each of them may be absent. A task carries its id and,
  when it has the attribute, its type.
\<close>

record node =
  node_id :: string
  node_readiness_score :: "int option"
  node_gpu_available :: "bool option"
  node_max_concurrent_tasks :: "int option"
  node_current_load :: "int option"

record task =
  task_ident :: string
  task_type :: "string option"

text \<open>\<^verbatim>\<open>d.get(key, default)\<close> on an entry that may be absent.\<close>

definition get_or :: "'a option \<Rightarrow> 'a \<Rightarrow> 'a" where
  "get_or entry fallback = (case entry of None \<Rightarrow> fallback | Some v \<Rightarrow> v)"

text \<open>\<^verbatim>\<open>str.lower\<close> on the ASCII letters, which is all that the comparison with the two task types needs.\<close>

definition lower_char :: "char \<Rightarrow> char" where
  "lower_char c =
     (if CHR ''A'' \<le> c \<and> c \<le> CHR ''Z'' then char_of (of_char c + (32::nat)) else c)"

definition lower :: "string \<Rightarrow> string" where
  "lower s = map lower_char s"

definition node_meets_requirements :: "node \<Rightarrow> string \<Rightarrow> bool" where
  "node_meets_requirements n ttype =
     (let score = get_or (node_readiness_score n) 0;
          gpu = get_or (node_gpu_available n) False;
          max_concurrent = get_or (node_max_concurrent_tasks n) 1;
          current_load = get_or (node_current_load n) 0
      in if score < 60 then False
         else if ttype \<in> set [''gpu_inference'', ''training''] \<and> \<not> gpu then False
         else if current_load \<ge> max_concurrent then False
         else True)"

text \<open>
  \<^verbatim>\<open>sorted(xs, key=key, reverse=True)\<close>: Python reverses the list, sorts it stably in
  ascending order of the key, and reverses the result, so that elements with equal
  keys keep the order they had in \<open>xs\<close>.
\<close>

definition sorted_reverse :: "('a \<Rightarrow> int) \<Rightarrow> 'a list \<Rightarrow> 'a list" where
  "sorted_reverse key xs = rev (sort_key key (rev xs))"

definition score_key :: "node \<Rightarrow> int" where
  "score_key n = get_or (node_readiness_score n) 0"

text \<open>The \<^verbatim>\<open>for node in sorted_nodes\<close> loop, which returns at the first node that meets the requirements.\<close>

fun first_meeting_requirements :: "node list \<Rightarrow> string \<Rightarrow> node option" where
  "first_meeting_requirements [] ttype = None"
| "first_meeting_requirements (n # ns) ttype =
     (if node_meets_requirements n ttype then Some n
      else first_meeting_requirements ns ttype)"

definition lowered_task_type :: "task \<Rightarrow> string" where
  "lowered_task_type t = (case task_type t of Some ty \<Rightarrow> lower ty | None \<Rightarrow> ''general'')"

text \<open>
  \<^verbatim>\<open>_select_optimal_ai_node\<close>, on the list that \<^verbatim>\<open>_get_ai_ready_nodes\<close> has returned: the
  online nodes whose readiness snapshot says \<^verbatim>\<open>ready_for_ai\<close>, in registry order.
\<close>

definition select_optimal_ai_node :: "task \<Rightarrow> node list \<Rightarrow> node option" where
  "select_optimal_ai_node t available_nodes =
     (if available_nodes = [] then None
      else
        (let sorted_nodes = sorted_reverse score_key available_nodes;
             ttype = lowered_task_type t
         in case first_meeting_requirements sorted_nodes ttype of
              Some n \<Rightarrow> Some n
            | None \<Rightarrow> (case sorted_nodes of [] \<Rightarrow> None | highest # rest \<Rightarrow> Some highest)))"

section \<open>Hub: assignment and dispatch\<close>



datatype task_status = PENDING | RUNNING | COMPLETED | FAILED





section \<open>Hub: the task queue driver (\_process\_task\_queue)\<close>

text \<open>
  A pending task as the registry hands it out, a dictionary read with
  \<^verbatim>\<open>t.get('priority', 0)\<close> and \<^verbatim>\<open>t.get('created_at', '')\<close>.
\<close>

record pending_task =
  pending_id :: string
  priority :: "int option"
  created_at :: "string option"

definition queue_key :: "pending_task \<Rightarrow> int \<times> string" where
  "queue_key t = (get_or (priority t) 0, get_or (created_at t) '''')"

text \<open>
  The \<^verbatim>\<open>for task_data in pending_tasks\<close> loop of one pass. \<open>running i\<close> is the value of
  \<^verbatim>\<open>self.running\<close> when iteration \<open>i\<close> tests it, and \<open>valid\<close> tells whether
  \<^verbatim>\<open>Task(**task_data)\<close> succeeds; when it raises, the pass is abandoned. The result is the
  list of tasks passed to \<^verbatim>\<open>schedule_task\<close>, in the order of the calls.
\<close>

fun schedule_loop ::
  "(nat \<Rightarrow> bool) \<Rightarrow> (pending_task \<Rightarrow> bool) \<Rightarrow> nat \<Rightarrow> pending_task list \<Rightarrow> pending_task list" where
  "schedule_loop running valid i [] = []"
| "schedule_loop running valid i (t # ts) =
     (if \<not> running i then []
      else if \<not> valid t then []
      else t # schedule_loop running valid (Suc i) ts)"

definition process_task_queue_pass ::
  "(nat \<Rightarrow> bool) \<Rightarrow> (pending_task \<Rightarrow> bool) \<Rightarrow> pending_task list \<Rightarrow> pending_task list" where
  "process_task_queue_pass running valid pending_tasks =
     schedule_loop running valid 0 (sort_key queue_key pending_tasks)"

section \<open>The orders of the specification\<close>

text \<open>
  The specification's candidate order (score descending, then load ascending, then id)
  and its queue order (priority descending, then creation time ascending), with the
  selection and the pass they would give. They follow the specification's words and are
  compared with the code's functions below.
\<close>

definition spec_sorted_nodes :: "node list \<Rightarrow> node list" where
  "spec_sorted_nodes ns =
     sort_key (\<lambda>n. (- score_key n, get_or (node_current_load n) 0, node_id n)) ns"

definition spec_select_node :: "task \<Rightarrow> node list \<Rightarrow> node option" where
  "spec_select_node t ns =
     (case find (\<lambda>n. node_meets_requirements n (lowered_task_type t)) (spec_sorted_nodes ns) of
        Some n \<Rightarrow> Some n
      | None \<Rightarrow> (case spec_sorted_nodes ns of [] \<Rightarrow> None | highest # rest \<Rightarrow> Some highest))"

definition spec_queue_order :: "pending_task list \<Rightarrow> pending_task list" where
  "spec_queue_order ts =
     sort_key (\<lambda>t. (- get_or (priority t) 0, get_or (created_at t) '''')) ts"

text \<open>
  Modelled from the spec: the registry's task table with
  \<^verbatim>\<open>update_task_status(id, status, node?)\<close> and the \<^verbatim>\<open>current_load\<close> of a node, which
  are in exo\_hub/services/registry.py and not among the sources. The table holds one
  entry per task, with the task's status and the node it is assigned to; the update sets
  both for a known task; and the load of a node is, in the words of the data model, the
  count of tasks the hub believes are running on this node.
\<close>

record task_entry =
  entry_id :: string
  entry_status :: task_status
  entry_node :: "string option"



definition running_on :: "string \<Rightarrow> task_entry \<Rightarrow> bool" where
  "running_on nid e = (entry_status e = RUNNING \<and> entry_node e = Some nid)"

definition current_load :: "task_entry list \<Rightarrow> string \<Rightarrow> int" where
  "current_load table nid = int (length (filter (running_on nid) table))"


section \<open>Auxiliary notions for the statements\<close>

text \<open>
  A call of the idle detector made while user input arrives at least every 25 seconds:
  the activity probe, when it has a measurement, measures at most 25000 ms since the last
  input.
\<close>

definition recent_input :: "idle_sample option \<Rightarrow> bool" where
  "recent_input sample =
     (case sample of
        None \<Rightarrow> True
      | Some s \<Rightarrow> (case sample_idle_ms s of None \<Rightarrow> True | Some ms \<Rightarrow> ms \<le> 25000))"

fun failed_heartbeat :: "tick \<Rightarrow> bool" where
  "failed_heartbeat (Heartbeat heartbeat_ok register_ok) = (\<not> heartbeat_ok)"
| "failed_heartbeat KeyboardInterrupt = False"

text \<open>Whether a response has the compute caps among its values.\<close>

fun is_caps :: "'r json \<Rightarrow> bool" where
  "is_caps (Caps limits) = True"
| "is_caps v = False"

definition carries_caps :: "(string \<times> 'r json) list \<Rightarrow> bool" where
  "carries_caps response = list_ex (\<lambda>(k, v). is_caps v) response"

section \<open>The score table of the specification\<close>

text \<open>
  The specification gives the score as a table of rows (condition, points) per dimension,
  each dimension contributing the best row that matches, if any. These definitions
  follow the specification's table, not the code, and are compared with
  \<open>compute_readiness_score\<close> below.
\<close>

definition best_matching_row :: "(bool \<times> int) list \<Rightarrow> int option" where
  "best_matching_row rows =
     (case filter fst rows of
        [] \<Rightarrow> None
      | r # rs \<Rightarrow> Some (fold max (map snd rs) (snd r)))"

definition contribution :: "int option \<Rightarrow> int" where
  "contribution row = (case row of None \<Rightarrow> 0 | Some points \<Rightarrow> points)"

definition spec_idle_rows :: "idle_state \<Rightarrow> (bool \<times> int) list" where
  "spec_idle_rows idle =
     [(is_idle idle \<and> idle_duration idle > 1800, 40),
      (is_idle idle \<and> idle_duration idle > 600, 30),
      (is_idle idle, 20),
      (\<not> is_idle idle, 5)]"

definition spec_power_rows :: "battery_info \<Rightarrow> (bool \<times> int) list" where
  "spec_power_rows battery =
     [(\<not> on_battery battery, 30),
      (on_battery battery \<and> battery_level battery > 80, 25),
      (on_battery battery \<and> battery_level battery > 50, 15),
      (on_battery battery \<and> battery_level battery > 20, 5)]"

definition spec_resource_rows :: "real \<Rightarrow> real \<Rightarrow> (bool \<times> int) list" where
  "spec_resource_rows cpu mem =
     [(cpu < 20 \<and> mem < 50, 30),
      (cpu < 50 \<and> mem < 70, 20),
      (cpu < 80 \<and> mem < 85, 10)]"

text \<open>The three summands of the score, named for the proofs.\<close>

definition idle_points :: "idle_state \<Rightarrow> int" where
  "idle_points idle =
     (if is_idle idle then
        (if idle_duration idle > 1800 then 40 else if idle_duration idle > 600 then 30 else 20)
      else 5)"

definition power_points :: "battery_info \<Rightarrow> int" where
  "power_points battery =
     (if \<not> on_battery battery then 30
      else if battery_level battery > 80 then 25
      else if battery_level battery > 50 then 15
      else if battery_level battery > 20 then 5
      else 0)"

definition resource_points :: "real \<Rightarrow> real \<Rightarrow> int" where
  "resource_points cpu mem =
     (if cpu < 20 \<and> mem < 50 then 30
      else if cpu < 50 \<and> mem < 70 then 20
      else if cpu < 80 \<and> mem < 85 then 10
      else 0)"

section \<open>Example machines\<close>

text \<open>
  A monitor that has been idle since time 0, read at time 2400 on a plugged-in laptop with
  5 percent CPU and 30 percent memory in use; and a fresh monitor on a laptop running on
  15 percent battery with the user at the keyboard, 60 percent CPU and 75 percent memory.
\<close>

definition idle_monitor :: health_monitor where
  "idle_monitor =
     \<lparr>idle_threshold_cpu = 10, idle_threshold_duration = 300, last_user_activity = 0,
      idle_start_time = Some 0, currently_idle = True, gpu_enabled = False\<rparr>"

definition plugged_reads :: machine_reads where
  "plugged_reads =
     \<lparr>read_time = 2400,
      read_idle = Some \<lparr>sample_cpu = 5, sample_idle_ms = Some 2400000, sample_memory = 30\<rparr>,
      read_battery = None, read_battery_limits = None, read_cpu = 5, read_memory = 30,
      read_battery_throttle = None, read_cpu_advice = 5, read_memory_advice = 30\<rparr>"

definition low_battery :: "sbattery option" where
  "low_battery = Some \<lparr>percent = 15, plugged = Some False, secsleft = 900\<rparr>"

definition low_battery_reads :: machine_reads where
  "low_battery_reads =
     \<lparr>read_time = 50,
      read_idle = Some \<lparr>sample_cpu = 60, sample_idle_ms = Some 2000, sample_memory = 75\<rparr>,
      read_battery = low_battery, read_battery_limits = low_battery, read_cpu = 60,
      read_memory = 75, read_battery_throttle = low_battery, read_cpu_advice = 60,
      read_memory_advice = 75\<rparr>"

definition resting_idle_state :: idle_state where
  "resting_idle_state =
     \<lparr>is_idle = True, idle_duration = 0, cpu_threshold = 10, memory_threshold = 70,
      user_active = False, last_activity = 0\<rparr>"

definition quiet_sample :: idle_sample where
  "quiet_sample = \<lparr>sample_cpu = 2, sample_idle_ms = Some 400000, sample_memory = 30\<rparr>"

definition typing_sample :: idle_sample where
  "typing_sample = \<lparr>sample_cpu = 2, sample_idle_ms = Some 25000, sample_memory = 30\<rparr>"

definition busy_sample :: idle_sample where
  "busy_sample = \<lparr>sample_cpu = 60, sample_idle_ms = Some 400000, sample_memory = 30\<rparr>"

text \<open>Ten minutes of calls, one every 25 seconds, each measuring 25 seconds since the last input.\<close>

definition flap_calls :: "(real \<times> idle_sample option) list" where
  "flap_calls = map (\<lambda>k. (25 * real k, Some typing_sample)) [1..<25]"

definition low_battery_agent :: "unit agent" where
  "low_battery_agent =
     \<lparr>monitor = health_monitor_init 0 False, task_history = [], engine_calls = []\<rparr>"

definition some_task :: "unit task_data" where
  "some_task = \<lparr>task_id = Some ''t1'', task_payload = (), task_compute_limits = None\<rparr>"

definition waiting_monitor :: health_monitor where
  "waiting_monitor = (health_monitor_init 0 False)\<lparr>idle_start_time := Some 0\<rparr>"

text \<open>Example nodes and tasks for the scheduler.\<close>

definition node_with :: "string \<Rightarrow> int \<Rightarrow> bool \<Rightarrow> int \<Rightarrow> int \<Rightarrow> node" where
  "node_with name score gpu max_concurrent load =
     \<lparr>node_id = name, node_readiness_score = Some score, node_gpu_available = Some gpu,
      node_max_concurrent_tasks = Some max_concurrent, node_current_load = Some load\<rparr>"

definition text_task :: task where
  "text_task = \<lparr>task_ident = ''t1'', task_type = Some ''text-generation''\<rparr>"

definition gpu_task :: task where
  "gpu_task = \<lparr>task_ident = ''t2'', task_type = Some ''gpu_inference''\<rparr>"


definition urgent_late :: pending_task where
  "urgent_late =
     \<lparr>pending_id = ''p5'', priority = Some 5, created_at = Some ''2024-01-02T00:00:00''\<rparr>"

definition minor_early :: pending_task where
  "minor_early =
     \<lparr>pending_id = ''p1'', priority = Some 1, created_at = Some ''2024-01-01T00:00:00''\<rparr>"

text \<open>
  The idle laptop again, with the battery changing between the reads of one evaluation:
  first on 15 percent battery and plugged in by the time the throttle decision reads it;
  and the other way round, plugged in at first and on 15 percent battery at the decision.
\<close>

definition replugged_reads :: machine_reads where
  "replugged_reads =
     plugged_reads\<lparr>read_battery := low_battery, read_battery_limits := low_battery\<rparr>"

definition unplugged_reads :: machine_reads where
  "unplugged_reads = plugged_reads\<lparr>read_battery_throttle := low_battery\<rparr>"



section \<open>Verification: readiness evaluation\<close>

lemma score_parts:
  "compute_readiness_score idle battery cpu mem =
     idle_points idle + power_points battery + resource_points cpu mem"
  by (simp add: compute_readiness_score_def idle_points_def power_points_def
      resource_points_def)

lemma idle_points_rows: "idle_points idle = contribution (best_matching_row (spec_idle_rows idle))"
  by (simp add: idle_points_def best_matching_row_def contribution_def spec_idle_rows_def)

lemma power_points_rows:
  "power_points battery = contribution (best_matching_row (spec_power_rows battery))"
  by (simp add: power_points_def best_matching_row_def contribution_def spec_power_rows_def)

lemma resource_points_rows:
  "resource_points cpu mem = contribution (best_matching_row (spec_resource_rows cpu mem))"
  by (simp add: resource_points_def best_matching_row_def contribution_def
      spec_resource_rows_def)

lemma idle_row_exists: "best_matching_row (spec_idle_rows idle) \<noteq> None"
  by (simp add: best_matching_row_def spec_idle_rows_def)

lemma score_bounds:
  "0 \<le> compute_readiness_score idle battery cpu mem \<and>
   compute_readiness_score idle battery cpu mem \<le> 100"
  by (simp add: score_parts idle_points_def power_points_def resource_points_def)

lemma readiness_score_eq:
  "readiness_score (fst (get_ai_compute_readiness m env)) =
     compute_readiness_score (fst (detect_idle_state m (read_time env) (read_idle env)))
       (get_battery_info (read_battery env)) (read_cpu env) (read_memory env)"
  by (simp add: get_ai_compute_readiness_def Let_def split: prod.splits)

lemma idle_points_mono:
  "d \<le> d' \<Longrightarrow>
   idle_points (idle\<lparr>idle_duration := d\<rparr>) \<le> idle_points (idle\<lparr>idle_duration := d'\<rparr>)"
  by (simp add: idle_points_def)

lemma power_points_mono:
  "on_battery battery \<Longrightarrow> l \<le> l' \<Longrightarrow>
   power_points (battery\<lparr>battery_level := l\<rparr>) \<le> power_points (battery\<lparr>battery_level := l'\<rparr>)"
  by (simp add: power_points_def)

lemma resource_points_cpu_mono:
  "cpu' \<le> cpu \<Longrightarrow> resource_points cpu mem \<le> resource_points cpu' mem"
  by (simp add: resource_points_def)

lemma resource_points_mem_mono:
  "mem' \<le> mem \<Longrightarrow> resource_points cpu mem \<le> resource_points cpu mem'"
  by (simp add: resource_points_def)

lemma ready_for_ai_throttle_read:
  "ready_for_ai (fst (get_ai_compute_readiness m env)) =
     (readiness_score (fst (get_ai_compute_readiness m env)) \<ge> 60 \<and>
      \<not> (on_battery (get_battery_info (read_battery_throttle env)) \<and>
         battery_level (get_battery_info (read_battery_throttle env)) < 20))"
  by (simp add: get_ai_compute_readiness_def should_throttle_compute_def Let_def
      split: prod.splits)

lemma power_state_eq:
  "power_state (fst (get_ai_compute_readiness m env)) = get_battery_info (read_battery env)"
  by (simp add: get_ai_compute_readiness_def Let_def split: prod.splits)

text \<open>
  Claim C1, as amended. For every evaluation by \<open>get_ai_compute_readiness\<close> the returned
  \<open>ready_for_ai\<close> flag is true if and only if the returned \<open>readiness_score\<close> is at least
  60 and the machine is not on battery below 20 percent at the battery read that
  \<^verbatim>\<open>should_throttle_compute\<close> makes for the decision, a later read than the one returned
  as \<open>power_state\<close>. Whenever that read finds the battery as the returned \<open>power_state\<close>
  has it, the flag is true if and only if the score is at least 60 and the returned
  \<open>power_state\<close> is not on battery below 20 percent.
\<close>

theorem ready_for_ai_decision:
  "ready_for_ai (fst (get_ai_compute_readiness m env)) =
     (readiness_score (fst (get_ai_compute_readiness m env)) \<ge> 60 \<and>
      \<not> (on_battery (get_battery_info (read_battery_throttle env)) \<and>
         battery_level (get_battery_info (read_battery_throttle env)) < 20)) \<and>
   (on_battery (get_battery_info (read_battery_throttle env)) =
      on_battery (power_state (fst (get_ai_compute_readiness m env))) \<and>
    battery_level (get_battery_info (read_battery_throttle env)) =
      battery_level (power_state (fst (get_ai_compute_readiness m env))) \<longrightarrow>
    ready_for_ai (fst (get_ai_compute_readiness m env)) =
      (readiness_score (fst (get_ai_compute_readiness m env)) \<ge> 60 \<and>
       \<not> (on_battery (power_state (fst (get_ai_compute_readiness m env))) \<and>
          battery_level (power_state (fst (get_ai_compute_readiness m env))) < 20)))"
  using ready_for_ai_throttle_read [of m env] by simp

theorem ready_for_ai_decision_witness:
  "ready_for_ai (fst (get_ai_compute_readiness idle_monitor plugged_reads)) \<and>
   readiness_score (fst (get_ai_compute_readiness idle_monitor plugged_reads)) = 100 \<and>
   \<not> on_battery (power_state (fst (get_ai_compute_readiness idle_monitor plugged_reads))) \<and>
   \<not> on_battery (get_battery_info (read_battery_throttle plugged_reads)) \<and>
   \<not> ready_for_ai
       (fst (get_ai_compute_readiness (health_monitor_init 0 False) low_battery_reads)) \<and>
   on_battery
     (power_state (fst (get_ai_compute_readiness (health_monitor_init 0 False) low_battery_reads))) \<and>
   battery_level
     (power_state (fst (get_ai_compute_readiness (health_monitor_init 0 False) low_battery_reads)))
     = 15 \<and>
   on_battery (get_battery_info (read_battery_throttle low_battery_reads)) \<and>
   battery_level (get_battery_info (read_battery_throttle low_battery_reads)) = 15"
  using ready_for_ai_decision [of idle_monitor plugged_reads]
    ready_for_ai_decision [of "health_monitor_init 0 False" low_battery_reads]
  by (simp add: power_state_eq readiness_score_eq score_parts idle_points_def power_points_def
      resource_points_def detect_idle_state_def check_user_activity_def low_load_def
      get_battery_info_def idle_monitor_def plugged_reads_def low_battery_reads_def
      low_battery_def health_monitor_init_def)

text \<open>
  Claim C1 as stated fails of the returned snapshot when the battery changes between the
  two reads, in both directions: the idle laptop that is plugged in between them is
  returned as ready with a \<open>power_state\<close> on battery at 15 percent, and the one that is
  unplugged between them is returned as not ready with a score of 100 and a
  \<open>power_state\<close> that is not on battery.
\<close>

theorem ready_for_ai_snapshot_counterexample:
  "ready_for_ai (fst (get_ai_compute_readiness idle_monitor replugged_reads)) \<and>
   on_battery (power_state (fst (get_ai_compute_readiness idle_monitor replugged_reads))) \<and>
   battery_level (power_state (fst (get_ai_compute_readiness idle_monitor replugged_reads))) < 20 \<and>
   \<not> ready_for_ai (fst (get_ai_compute_readiness idle_monitor unplugged_reads)) \<and>
   readiness_score (fst (get_ai_compute_readiness idle_monitor unplugged_reads)) = 100 \<and>
   \<not> on_battery (power_state (fst (get_ai_compute_readiness idle_monitor unplugged_reads)))"
  by (simp add: ready_for_ai_throttle_read power_state_eq readiness_score_eq score_parts
      idle_points_def power_points_def resource_points_def detect_idle_state_def
      check_user_activity_def low_load_def get_battery_info_def idle_monitor_def
      plugged_reads_def replugged_reads_def unplugged_reads_def low_battery_def)

text \<open>
  Claim C3. For every idle state, battery state and resource sample, the readiness score
  lies between 0 and 100 and is the sum of the best-matching row of the Idle table (one
  always matches: 40, 30 or 20 when idle, by duration, and 5 when not idle), the
  best-matching row of the Power table if any, and the best-matching row of the Resources
  table if any; and this is the score \<open>get_ai_compute_readiness\<close> returns.
\<close>

theorem readiness_score_composition:
  "compute_readiness_score idle battery cpu mem =
     contribution (best_matching_row (spec_idle_rows idle)) +
     contribution (best_matching_row (spec_power_rows battery)) +
     contribution (best_matching_row (spec_resource_rows cpu mem)) \<and>
   best_matching_row (spec_idle_rows idle) \<noteq> None \<and>
   0 \<le> compute_readiness_score idle battery cpu mem \<and>
   compute_readiness_score idle battery cpu mem \<le> 100 \<and>
   readiness_score (fst (get_ai_compute_readiness m env)) =
     compute_readiness_score (fst (detect_idle_state m (read_time env) (read_idle env)))
       (get_battery_info (read_battery env)) (read_cpu env) (read_memory env)"
  using score_bounds [of idle battery cpu mem]
  by (simp add: score_parts idle_points_rows power_points_rows resource_points_rows
      idle_row_exists readiness_score_eq)

text \<open>
  Claim C4. For every battery state the compute limits are: not on battery, 90/90/5;
  on battery at 50 percent or more, 70/80/3; on battery from 20 up to but not including
  50 percent, 50/70/2; on battery below 20 percent, 30/50/1.
\<close>

theorem get_compute_limits_table:
  "(\<not> on_battery (get_battery_info probe) \<longrightarrow>
      get_compute_limits probe =
        \<lparr>max_cpu_usage = 90, max_memory_usage = 90, max_concurrent_tasks = 5\<rparr>) \<and>
   (on_battery (get_battery_info probe) \<and> battery_level (get_battery_info probe) \<ge> 50 \<longrightarrow>
      get_compute_limits probe =
        \<lparr>max_cpu_usage = 70, max_memory_usage = 80, max_concurrent_tasks = 3\<rparr>) \<and>
   (on_battery (get_battery_info probe) \<and> 20 \<le> battery_level (get_battery_info probe) \<and>
    battery_level (get_battery_info probe) < 50 \<longrightarrow>
      get_compute_limits probe =
        \<lparr>max_cpu_usage = 50, max_memory_usage = 70, max_concurrent_tasks = 2\<rparr>) \<and>
   (on_battery (get_battery_info probe) \<and> battery_level (get_battery_info probe) < 20 \<longrightarrow>
      get_compute_limits probe =
        \<lparr>max_cpu_usage = 30, max_memory_usage = 50, max_concurrent_tasks = 1\<rparr>)"
  by (simp add: get_compute_limits_def Let_def)

theorem get_compute_limits_table_witness:
  "get_compute_limits None =
     \<lparr>max_cpu_usage = 90, max_memory_usage = 90, max_concurrent_tasks = 5\<rparr> \<and>
   get_compute_limits (Some \<lparr>percent = 50, plugged = Some False, secsleft = 7200\<rparr>) =
     \<lparr>max_cpu_usage = 70, max_memory_usage = 80, max_concurrent_tasks = 3\<rparr> \<and>
   get_compute_limits (Some \<lparr>percent = 20, plugged = None, secsleft = - 1\<rparr>) =
     \<lparr>max_cpu_usage = 50, max_memory_usage = 70, max_concurrent_tasks = 2\<rparr> \<and>
   get_compute_limits low_battery =
     \<lparr>max_cpu_usage = 30, max_memory_usage = 50, max_concurrent_tasks = 1\<rparr>"
  using get_compute_limits_table [of None]
    get_compute_limits_table [of "Some \<lparr>percent = 50, plugged = Some False, secsleft = 7200\<rparr>"]
    get_compute_limits_table [of "Some \<lparr>percent = 20, plugged = None, secsleft = - 1\<rparr>"]
    get_compute_limits_table [of low_battery]
  by (simp add: get_battery_info_def low_battery_def)

text \<open>
  Claim C5. With all other inputs fixed, the readiness score does not decrease when the
  idle duration increases, when the battery level increases on a machine running on
  battery, when the CPU usage decreases, or when the memory usage decreases.
\<close>

theorem readiness_score_monotone:
  "(d \<le> d' \<longrightarrow>
      compute_readiness_score (idle\<lparr>idle_duration := d\<rparr>) battery cpu mem
      \<le> compute_readiness_score (idle\<lparr>idle_duration := d'\<rparr>) battery cpu mem) \<and>
   (on_battery battery \<and> l \<le> l' \<longrightarrow>
      compute_readiness_score idle (battery\<lparr>battery_level := l\<rparr>) cpu mem
      \<le> compute_readiness_score idle (battery\<lparr>battery_level := l'\<rparr>) cpu mem) \<and>
   (cpu' \<le> cpu \<longrightarrow>
      compute_readiness_score idle battery cpu mem
      \<le> compute_readiness_score idle battery cpu' mem) \<and>
   (mem' \<le> mem \<longrightarrow>
      compute_readiness_score idle battery cpu mem
      \<le> compute_readiness_score idle battery cpu mem')"
  unfolding score_parts
  using idle_points_mono [of d d' idle] power_points_mono [of battery l l']
    resource_points_cpu_mono [of cpu' cpu mem] resource_points_mem_mono [of mem' mem cpu]
  by simp

theorem readiness_score_monotone_witness:
  "(700::real) \<le> 2000 \<and>
   compute_readiness_score (resting_idle_state\<lparr>idle_duration := 700\<rparr>)
       (get_battery_info low_battery) 90 40
     < compute_readiness_score (resting_idle_state\<lparr>idle_duration := 2000\<rparr>)
         (get_battery_info low_battery) 90 40 \<and>
   on_battery (get_battery_info low_battery) \<and>
   compute_readiness_score resting_idle_state
       ((get_battery_info low_battery)\<lparr>battery_level := 15\<rparr>) 90 40
     < compute_readiness_score resting_idle_state
         ((get_battery_info low_battery)\<lparr>battery_level := 60\<rparr>) 90 40 \<and>
   compute_readiness_score resting_idle_state (get_battery_info low_battery) 90 40
     < compute_readiness_score resting_idle_state (get_battery_info low_battery) 10 40 \<and>
   compute_readiness_score resting_idle_state (get_battery_info low_battery) 10 90
     < compute_readiness_score resting_idle_state (get_battery_info low_battery) 10 40"
  using readiness_score_monotone [where d = 700 and d' = 2000 and idle = resting_idle_state
      and battery = "get_battery_info low_battery" and l = 15 and l' = 60 and cpu = 90
      and cpu' = 10 and mem = 40 and mem' = 40]
    readiness_score_monotone [where d = 0 and d' = 0 and idle = resting_idle_state
      and battery = "get_battery_info low_battery" and l = 15 and l' = 15 and cpu = 10
      and cpu' = 10 and mem = 90 and mem' = 40]
  by (simp add: score_parts idle_points_def power_points_def resource_points_def
      resting_idle_state_def get_battery_info_def low_battery_def)

section \<open>Verification: the execute endpoint\<close>

lemma rejected_response:
  "\<not> ready_for_ai (fst (get_ai_compute_readiness (monitor a) env)) \<Longrightarrow>
   execute_task process_task a env duration task =
     ([(''status'', Text ''rejected''),
       (''error'', Text ''System not ready for AI compute''),
       (''readiness_score'', Score (readiness_score (fst (get_ai_compute_readiness (monitor a) env)))),
       (''recommendations'', Advice (recommendations (fst (get_ai_compute_readiness (monitor a) env))))],
      a\<lparr>monitor := snd (get_ai_compute_readiness (monitor a) env)\<rparr>)"
  by (simp add: execute_task_def Let_def case_prod_beta)

text \<open>
  Claim C7, as amended. For every execute request received while the re-evaluated
  readiness has \<open>ready_for_ai\<close> false, the endpoint responds with status rejected,
  carrying an error message, the readiness score and the recommendations and nothing
  else, so no compute caps, and it neither invokes the inference engine nor records the
  task.
\<close>

theorem execute_task_rejects:
  "\<not> ready_for_ai (fst (get_ai_compute_readiness (monitor a) env)) \<longrightarrow>
   map_of (fst (execute_task process_task a env duration task)) ''status'' =
     Some (Text ''rejected'') \<and>
   map_of (fst (execute_task process_task a env duration task)) ''error'' =
     Some (Text ''System not ready for AI compute'') \<and>
   map_of (fst (execute_task process_task a env duration task)) ''readiness_score'' =
     Some (Score (readiness_score (fst (get_ai_compute_readiness (monitor a) env)))) \<and>
   map_of (fst (execute_task process_task a env duration task)) ''recommendations'' =
     Some (Advice (recommendations (fst (get_ai_compute_readiness (monitor a) env)))) \<and>
   map fst (fst (execute_task process_task a env duration task)) =
     [''status'', ''error'', ''readiness_score'', ''recommendations''] \<and>
   \<not> carries_caps (fst (execute_task process_task a env duration task)) \<and>
   engine_calls (snd (execute_task process_task a env duration task)) = engine_calls a \<and>
   task_history (snd (execute_task process_task a env duration task)) = task_history a"
  by (simp add: rejected_response carries_caps_def)

lemma low_battery_not_ready:
  "\<not> ready_for_ai (fst (get_ai_compute_readiness (health_monitor_init 0 False) low_battery_reads))"
  by (simp add: get_ai_compute_readiness_def should_throttle_compute_def get_battery_info_def
      low_battery_reads_def low_battery_def Let_def split: prod.splits)

theorem execute_task_rejects_witness:
  "\<not> ready_for_ai (fst (get_ai_compute_readiness (monitor low_battery_agent) low_battery_reads)) \<and>
   map_of (fst (execute_task (\<lambda>t. Inr ()) low_battery_agent low_battery_reads 0 some_task))
     ''status'' = Some (Text ''rejected'') \<and>
   map_of (fst (execute_task (\<lambda>t. Inr ()) low_battery_agent low_battery_reads 0 some_task))
     ''error'' = Some (Text ''System not ready for AI compute'') \<and>
   engine_calls (snd (execute_task (\<lambda>t. Inr ()) low_battery_agent low_battery_reads 0 some_task))
     = []"
  using execute_task_rejects [of low_battery_agent low_battery_reads "\<lambda>t. Inr ()" 0 some_task]
    low_battery_not_ready
  by (simp add: low_battery_agent_def)

text \<open>
  Claim C7 as stated fails: on the laptop running on 15 percent battery the request is
  rejected and the response holds no compute caps.
\<close>

theorem execute_task_caps_counterexample:
  "\<not> ready_for_ai (fst (get_ai_compute_readiness (monitor low_battery_agent) low_battery_reads)) \<and>
   \<not> carries_caps
       (fst (execute_task (\<lambda>t. Inr ()) low_battery_agent low_battery_reads 0 some_task)) \<and>
   map_of (fst (execute_task (\<lambda>t. Inr ()) low_battery_agent low_battery_reads 0 some_task))
     ''compute_limits'' = None"
  using low_battery_not_ready
  by (simp add: rejected_response carries_caps_def low_battery_agent_def)

section \<open>Verification: idle detection\<close>

lemma step_active:
  "check_user_activity (sample_idle_ms s) \<Longrightarrow>
   \<not> currently_idle (snd (detect_idle_state m t (Some s))) \<and>
   idle_start_time (snd (detect_idle_state m t (Some s))) = None"
  by (simp add: detect_idle_state_def Let_def)

lemma step_set:
  "idle_start_time (snd (detect_idle_state m t (Some s))) \<noteq> None \<Longrightarrow>
   idle_start_time (snd (detect_idle_state m t (Some s))) \<noteq> idle_start_time m \<Longrightarrow>
   \<not> check_user_activity (sample_idle_ms s) \<and> low_load m s \<and>
   idle_start_time m = None \<and> idle_start_time (snd (detect_idle_state m t (Some s))) = Some t"
  by (auto simp add: detect_idle_state_def Let_def split: if_splits option.splits)

lemma step_high_load:
  "\<not> low_load m s \<Longrightarrow> idle_start_time (snd (detect_idle_state m t (Some s))) = None"
  by (simp add: detect_idle_state_def Let_def)

lemma step_becomes_idle:
  "\<not> currently_idle m \<Longrightarrow> currently_idle (snd (detect_idle_state m t sample)) \<Longrightarrow>
   (\<exists>t0. idle_start_time m = Some t0 \<and> t - t0 > idle_threshold_duration m) \<and>
   idle_duration (fst (detect_idle_state m t sample)) \<ge> idle_threshold_duration m"
  by (auto simp add: detect_idle_state_def Let_def split: if_splits option.splits)

lemma step_flap:
  "recent_input sample \<Longrightarrow> \<not> currently_idle m \<Longrightarrow> idle_start_time m = None \<Longrightarrow>
   \<not> currently_idle (snd (detect_idle_state m t sample)) \<and>
   idle_start_time (snd (detect_idle_state m t sample)) = None"
  by (auto simp add: detect_idle_state_def recent_input_def check_user_activity_def Let_def
      split: option.splits)

lemma run_flap:
  "\<forall>c \<in> set calls. recent_input (snd c) \<Longrightarrow> \<not> currently_idle m \<Longrightarrow> idle_start_time m = None \<Longrightarrow>
   \<not> currently_idle (detect_idle_states m calls) \<and>
   idle_start_time (detect_idle_states m calls) = None"
proof (induction calls arbitrary: m)
  case Nil
  then show ?case by simp
next
  case (Cons c calls)
  obtain t sample where c: "c = (t, sample)" by (cases c)
  from Cons.prems c have "recent_input sample" by simp
  from step_flap [OF this Cons.prems(2) Cons.prems(3), of t]
  have "\<not> currently_idle (snd (detect_idle_state m t sample))"
    and "idle_start_time (snd (detect_idle_state m t sample)) = None" by simp_all
  with Cons.IH [of "snd (detect_idle_state m t sample)"] Cons.prems(1) c
  show ?case by simp
qed

text \<open>
  Claim C9. Across calls of the idle detector: when the activity probe reports the user
  active, \<open>currently_idle\<close> becomes false and the idle-session start is cleared; the
  start is set only when the user is inactive and the load is low, and it is cleared when
  the load is not low; \<open>currently_idle\<close> becomes true only when the elapsed idle duration
  has reached the threshold, 300 seconds in a fresh monitor; and while input arrives at
  least every 25 seconds, \<open>currently_idle\<close> stays false after every call, the
  idle-session start staying clear.
\<close>

theorem detect_idle_state_transitions:
  "(check_user_activity (sample_idle_ms s) \<longrightarrow>
      \<not> currently_idle (snd (detect_idle_state m t (Some s))) \<and>
      idle_start_time (snd (detect_idle_state m t (Some s))) = None) \<and>
   (idle_start_time (snd (detect_idle_state m t (Some s))) \<noteq> None \<and>
    idle_start_time (snd (detect_idle_state m t (Some s))) \<noteq> idle_start_time m \<longrightarrow>
      \<not> check_user_activity (sample_idle_ms s) \<and> low_load m s) \<and>
   (\<not> low_load m s \<longrightarrow> idle_start_time (snd (detect_idle_state m t (Some s))) = None) \<and>
   (\<not> currently_idle m \<and> currently_idle (snd (detect_idle_state m t sample)) \<longrightarrow>
      idle_duration (fst (detect_idle_state m t sample)) \<ge> idle_threshold_duration m) \<and>
   idle_threshold_duration (health_monitor_init t0 cuda) = 300 \<and>
   ((\<forall>c \<in> set calls. recent_input (snd c)) \<longrightarrow>
      \<not> currently_idle (detect_idle_states (health_monitor_init t0 cuda) (take k calls)) \<and>
      idle_start_time (detect_idle_states (health_monitor_init t0 cuda) (take k calls)) = None)"
proof -
  have flap: "(\<forall>c \<in> set calls. recent_input (snd c)) \<longrightarrow>
      \<not> currently_idle (detect_idle_states (health_monitor_init t0 cuda) (take k calls)) \<and>
      idle_start_time (detect_idle_states (health_monitor_init t0 cuda) (take k calls)) = None"
  proof
    assume a: "\<forall>c \<in> set calls. recent_input (snd c)"
    have "\<forall>c \<in> set (take k calls). recent_input (snd c)"
      using a by (meson in_set_takeD)
    from run_flap [OF this, of "health_monitor_init t0 cuda"]
    show "\<not> currently_idle (detect_idle_states (health_monitor_init t0 cuda) (take k calls)) \<and>
      idle_start_time (detect_idle_states (health_monitor_init t0 cuda) (take k calls)) = None"
      by (simp add: health_monitor_init_def)
  qed
  have init: "idle_threshold_duration (health_monitor_init t0 cuda) = 300"
    by (simp add: health_monitor_init_def)
  have became: "\<not> currently_idle m \<and> currently_idle (snd (detect_idle_state m t sample)) \<longrightarrow>
      idle_duration (fst (detect_idle_state m t sample)) \<ge> idle_threshold_duration m"
    using step_becomes_idle [of m t sample] by blast
  have set_only: "idle_start_time (snd (detect_idle_state m t (Some s))) \<noteq> None \<and>
    idle_start_time (snd (detect_idle_state m t (Some s))) \<noteq> idle_start_time m \<longrightarrow>
      \<not> check_user_activity (sample_idle_ms s) \<and> low_load m s"
    using step_set [of m t s] by blast
  from step_active [of s m t] set_only step_high_load [of m s t] became init flap
  show ?thesis by blast
qed

theorem detect_idle_state_transitions_witness:
  "check_user_activity (sample_idle_ms typing_sample) \<and>
   currently_idle idle_monitor \<and>
   \<not> currently_idle (snd (detect_idle_state idle_monitor 2400 (Some typing_sample))) \<and>
   \<not> low_load idle_monitor busy_sample \<and>
   idle_start_time (snd (detect_idle_state idle_monitor 2400 (Some busy_sample))) = None \<and>
   idle_start_time (snd (detect_idle_state (health_monitor_init 0 False) 10 (Some quiet_sample)))
     = Some 10 \<and>
   \<not> check_user_activity (sample_idle_ms quiet_sample) \<and>
   low_load (health_monitor_init 0 False) quiet_sample \<and>
   \<not> currently_idle waiting_monitor \<and>
   currently_idle (snd (detect_idle_state waiting_monitor 301 (Some quiet_sample))) \<and>
   idle_duration (fst (detect_idle_state waiting_monitor 301 (Some quiet_sample))) \<ge> 300 \<and>
   \<not> currently_idle (snd (detect_idle_state waiting_monitor 300 (Some quiet_sample))) \<and>
   list_all (\<lambda>c. recent_input (snd c)) flap_calls \<and>
   \<not> currently_idle (detect_idle_states (health_monitor_init 0 False) flap_calls)"
  using detect_idle_state_transitions [where s = typing_sample and m = idle_monitor and t = 2400
      and sample = None and ?t0.0 = 0 and cuda = False and calls = flap_calls and k = 24]
    detect_idle_state_transitions [where s = busy_sample and m = idle_monitor and t = 2400
      and sample = None and ?t0.0 = 0 and cuda = False and calls = "[]" and k = 0]
    detect_idle_state_transitions [where s = quiet_sample and m = "health_monitor_init 0 False"
      and t = 10 and sample = None and ?t0.0 = 0 and cuda = False and calls = "[]" and k = 0]
    detect_idle_state_transitions [where s = quiet_sample and m = waiting_monitor
      and t = 301 and sample = "Some quiet_sample" and ?t0.0 = 0 and cuda = False
      and calls = "[]" and k = 0]
  by (simp add: typing_sample_def busy_sample_def quiet_sample_def idle_monitor_def
      waiting_monitor_def flap_calls_def health_monitor_init_def check_user_activity_def
      low_load_def recent_input_def detect_idle_state_def list_all_iff)

section \<open>Verification: the agent main loop\<close>

lemma loop_body_reregister:
  "\<not> exited l \<Longrightarrow> consecutive_failures l + 1 \<ge> max_consecutive_failures \<Longrightarrow>
   loop_body l (Heartbeat False register_ok) =
     l\<lparr>consecutive_failures := 0, reregistrations := reregistrations l @ [register_ok]\<rparr>"
  by (simp add: Let_def)

lemma loop_body_exited:
  "exited (loop_body l (Heartbeat heartbeat_ok register_ok)) = exited l"
  by (simp add: Let_def)

lemma loop_body_reregistrations_cases:
  "reregistrations (loop_body l tk) \<noteq> reregistrations l \<Longrightarrow>
   \<not> exited l \<and> failed_heartbeat tk \<and> consecutive_failures l + 1 \<ge> max_consecutive_failures"
  by (cases tk) (auto simp add: Let_def split: if_splits)

text \<open>
  The loop invariant: started with the counter at 0, a loop that has not been left has a
  counter between 0 and 4 that counts failed heartbeats at the end of the run.
\<close>

lemma loop_invariant:
  "consecutive_failures l = 0 \<Longrightarrow> \<not> exited l \<Longrightarrow> \<not> exited (foldl loop_body l ticks) \<Longrightarrow>
   0 \<le> consecutive_failures (foldl loop_body l ticks) \<and>
   consecutive_failures (foldl loop_body l ticks) < max_consecutive_failures \<and>
   nat (consecutive_failures (foldl loop_body l ticks)) \<le> length ticks \<and>
   (\<forall>x \<in> set (drop (length ticks - nat (consecutive_failures (foldl loop_body l ticks))) ticks).
      failed_heartbeat x)"
proof (induction ticks rule: rev_induct)
  case Nil
  then show ?case by (simp add: max_consecutive_failures_def)
next
  case (snoc tk ticks)
  let ?l1 = "foldl loop_body l ticks"
  have step: "foldl loop_body l (ticks @ [tk]) = loop_body ?l1 tk" by simp
  from snoc.prems(3) step have live: "\<not> exited ?l1"
    by (cases tk) (auto split: if_splits)
  note IH = snoc.IH [OF snoc.prems(1) snoc.prems(2) live]
  show ?case
  proof (cases tk)
    case KeyboardInterrupt
    with snoc.prems(3) step live show ?thesis by simp
  next
    case (Heartbeat heartbeat_ok register_ok)
    show ?thesis
    proof (cases heartbeat_ok)
      case True
      with Heartbeat live show ?thesis
        by (simp add: max_consecutive_failures_def)
    next
      case False
      show ?thesis
      proof (cases "consecutive_failures ?l1 + 1 \<ge> max_consecutive_failures")
        case True
        with False Heartbeat live show ?thesis
          by (simp add: max_consecutive_failures_def Let_def)
      next
        case small: False
        from IH have c0: "0 \<le> consecutive_failures ?l1" by simp
        from IH have len: "nat (consecutive_failures ?l1) \<le> length ticks" by simp
        from IH have tail: "\<forall>x \<in> set (drop (length ticks - nat (consecutive_failures ?l1)) ticks).
          failed_heartbeat x" by simp
        have new: "consecutive_failures (loop_body ?l1 tk) = consecutive_failures ?l1 + 1"
          using small False Heartbeat live by (simp add: Let_def)
        have n: "nat (consecutive_failures ?l1 + 1) = Suc (nat (consecutive_failures ?l1))"
          using c0 by simp
        have d: "length (ticks @ [tk]) - Suc (nat (consecutive_failures ?l1)) =
                 length ticks - nat (consecutive_failures ?l1)"
          by simp
        have "\<forall>x \<in> set (drop (length ticks - nat (consecutive_failures ?l1)) (ticks @ [tk])).
          failed_heartbeat x"
          using tail len False Heartbeat by auto
        with new n d c0 len small show ?thesis
          unfolding step by simp
      qed
    qed
  qed
qed

lemma reregistration_needs_five:
  assumes "consecutive_failures l = 0" and "\<not> exited l"
    and "reregistrations (foldl loop_body l (ticks @ [tk])) \<noteq> reregistrations (foldl loop_body l ticks)"
  shows "4 \<le> length ticks \<and> failed_heartbeat tk \<and>
         (\<forall>x \<in> set (drop (length ticks - 4) ticks). failed_heartbeat x)"
proof -
  let ?l1 = "foldl loop_body l ticks"
  from assms(3) have "reregistrations (loop_body ?l1 tk) \<noteq> reregistrations ?l1" by simp
  from loop_body_reregistrations_cases [OF this]
  have live: "\<not> exited ?l1" and f: "failed_heartbeat tk"
    and c: "consecutive_failures ?l1 + 1 \<ge> max_consecutive_failures" by simp_all
  from loop_invariant [OF assms(1) assms(2) live] c
  have "consecutive_failures ?l1 = 4" by (simp add: max_consecutive_failures_def)
  with loop_invariant [OF assms(1) assms(2) live] f show ?thesis by simp
qed

lemma five_failures:
  "consecutive_failures l = 0 \<Longrightarrow> \<not> exited l \<Longrightarrow>
   foldl loop_body l [Heartbeat False r1, Heartbeat False r2, Heartbeat False r3,
     Heartbeat False r4, Heartbeat False r5] =
   l\<lparr>consecutive_failures := 0, reregistrations := reregistrations l @ [r5]\<rparr>"
  by (simp add: max_consecutive_failures_def Let_def)

lemma exit_only_by_interrupt:
  "exited (foldl loop_body l ticks) \<Longrightarrow> exited l \<or> KeyboardInterrupt \<in> set ticks"
proof (induction ticks rule: rev_induct)
  case Nil
  then show ?case by simp
next
  case (snoc tk ticks)
  then show ?case by (cases tk) (auto simp add: Let_def split: if_splits)
qed

text \<open>
  Claim C10. In the main loop, when a failed heartbeat brings the counter to 5, the agent
  makes exactly one re-registration attempt and resets the counter to 0 whatever the
  attempt returns; no heartbeat or registration outcome leaves the loop (only
  \<^verbatim>\<open>KeyboardInterrupt\<close> does); and from a counter of 0, as at start-up and after every
  re-registration, an iteration attempts a re-registration only if it and the four
  iterations before it are failed heartbeats, and five failed heartbeats in a row do end
  in one attempt.
\<close>

theorem main_loop_reregistration:
  "(\<not> exited l \<and> consecutive_failures l + 1 \<ge> max_consecutive_failures \<longrightarrow>
      loop_body l (Heartbeat False register_ok) =
        l\<lparr>consecutive_failures := 0, reregistrations := reregistrations l @ [register_ok]\<rparr>) \<and>
   exited (loop_body l (Heartbeat heartbeat_ok register_ok)) = exited l \<and>
   (exited (foldl loop_body l ticks) \<longrightarrow> exited l \<or> KeyboardInterrupt \<in> set ticks) \<and>
   (consecutive_failures l = 0 \<and> \<not> exited l \<and>
    reregistrations (foldl loop_body l (ticks @ [tk])) \<noteq> reregistrations (foldl loop_body l ticks)
    \<longrightarrow> 4 \<le> length ticks \<and> failed_heartbeat tk \<and>
        (\<forall>x \<in> set (drop (length ticks - 4) ticks). failed_heartbeat x)) \<and>
   (consecutive_failures l = 0 \<and> \<not> exited l \<longrightarrow>
      foldl loop_body l [Heartbeat False r1, Heartbeat False r2, Heartbeat False r3,
        Heartbeat False r4, Heartbeat False r5] =
      l\<lparr>consecutive_failures := 0, reregistrations := reregistrations l @ [r5]\<rparr>) \<and>
   main_loop True ticks =
     Some (foldl loop_body
            \<lparr>consecutive_failures = 0, reregistrations = [], exited = False\<rparr> ticks)"
proof -
  have a: "\<not> exited l \<and> consecutive_failures l + 1 \<ge> max_consecutive_failures \<longrightarrow>
      loop_body l (Heartbeat False register_ok) =
        l\<lparr>consecutive_failures := 0, reregistrations := reregistrations l @ [register_ok]\<rparr>"
    using loop_body_reregister [of l register_ok] by blast
  have b: "exited (foldl loop_body l ticks) \<longrightarrow> exited l \<or> KeyboardInterrupt \<in> set ticks"
    using exit_only_by_interrupt [of l ticks] by blast
  have c: "consecutive_failures l = 0 \<and> \<not> exited l \<and>
    reregistrations (foldl loop_body l (ticks @ [tk])) \<noteq> reregistrations (foldl loop_body l ticks)
    \<longrightarrow> 4 \<le> length ticks \<and> failed_heartbeat tk \<and>
        (\<forall>x \<in> set (drop (length ticks - 4) ticks). failed_heartbeat x)"
    using reregistration_needs_five [of l ticks tk] by blast
  have d: "consecutive_failures l = 0 \<and> \<not> exited l \<longrightarrow>
      foldl loop_body l [Heartbeat False r1, Heartbeat False r2, Heartbeat False r3,
        Heartbeat False r4, Heartbeat False r5] =
      l\<lparr>consecutive_failures := 0, reregistrations := reregistrations l @ [r5]\<rparr>"
    using five_failures [of l r1 r2 r3 r4 r5] by blast
  have e: "main_loop True ticks =
     Some (foldl loop_body
            \<lparr>consecutive_failures = 0, reregistrations = [], exited = False\<rparr> ticks)"
    by (simp add: main_loop_def)
  from a loop_body_exited [of l heartbeat_ok register_ok] b c d e show ?thesis by blast
qed

theorem main_loop_reregistration_witness:
  "loop_body \<lparr>consecutive_failures = 4, reregistrations = [], exited = False\<rparr>
     (Heartbeat False False) =
     \<lparr>consecutive_failures = 0, reregistrations = [False], exited = False\<rparr> \<and>
   main_loop True (replicate 9 (Heartbeat False False)) =
     Some \<lparr>consecutive_failures = 4, reregistrations = [False], exited = False\<rparr> \<and>
   main_loop True (replicate 10 (Heartbeat False False)) =
     Some \<lparr>consecutive_failures = 0, reregistrations = [False, False], exited = False\<rparr> \<and>
   reregistrations (foldl loop_body
       \<lparr>consecutive_failures = 0, reregistrations = [], exited = False\<rparr>
       (replicate 4 (Heartbeat False True) @ [Heartbeat False True])) \<noteq>
     reregistrations (foldl loop_body
       \<lparr>consecutive_failures = 0, reregistrations = [], exited = False\<rparr>
       (replicate 4 (Heartbeat False True)))"
  using main_loop_reregistration [where l = "\<lparr>consecutive_failures = 4, reregistrations = [],
        exited = False\<rparr>" and register_ok = False and heartbeat_ok = False
      and ticks = "replicate 9 (Heartbeat False False)" and tk = "Heartbeat False False"
      and ?r1.0 = False and ?r2.0 = False and ?r3.0 = False and ?r4.0 = False
      and ?r5.0 = False]
    main_loop_reregistration [where l = "\<lparr>consecutive_failures = 0, reregistrations = [],
        exited = False\<rparr>" and register_ok = True and heartbeat_ok = False
      and ticks = "replicate 4 (Heartbeat False True)" and tk = "Heartbeat False True"
      and ?r1.0 = True and ?r2.0 = True and ?r3.0 = True and ?r4.0 = True
      and ?r5.0 = True]
  by (simp add: main_loop_def max_consecutive_failures_def Let_def numeral_eq_Suc)

section \<open>Verification: node selection\<close>

lemma sorted_reverse_mset: "mset (sorted_reverse key xs) = mset xs"
  by (simp add: sorted_reverse_def)

lemma sorted_reverse_descending:
  "sorted_wrt (\<lambda>a b. key a \<ge> key b) (sorted_reverse key xs)"
proof -
  have "sorted (map key (sort_key key (rev xs)))" by (rule sorted_sort_key)
  then have "sorted_wrt (\<lambda>x y. key x \<le> key y) (sort_key key (rev xs))"
    by (simp add: sorted_map)
  then show ?thesis by (simp add: sorted_reverse_def sorted_wrt_rev)
qed

lemma sorted_reverse_stable:
  "filter (\<lambda>x. key x = v) (sorted_reverse key xs) = filter (\<lambda>x. key x = v) xs"
proof -
  have "filter (\<lambda>x. key x = v) (sorted_reverse key xs) =
        rev (filter (\<lambda>x. key x = v) (sort_key key (rev xs)))"
    by (simp add: sorted_reverse_def rev_filter)
  also have "\<dots> = rev (filter (\<lambda>x. key x = v) (rev xs))"
    by (simp only: sort_key_stable)
  also have "\<dots> = filter (\<lambda>x. key x = v) xs"
    by (simp add: rev_filter)
  finally show ?thesis .
qed

lemma sorted_reverse_Nil_iff: "sorted_reverse key xs = [] \<longleftrightarrow> xs = []"
  using sorted_reverse_mset [of key xs] by (metis mset_zero_iff)

lemma first_meeting_requirements_find:
  "first_meeting_requirements ns ttype = find (\<lambda>n. node_meets_requirements n ttype) ns"
  by (induction ns) simp_all

lemma node_meets_requirements_iff:
  "node_meets_requirements n ttype \<longleftrightarrow>
     score_key n \<ge> 60 \<and>
     (ttype = ''gpu_inference'' \<or> ttype = ''training'' \<longrightarrow> get_or (node_gpu_available n) False) \<and>
     get_or (node_current_load n) 0 < get_or (node_max_concurrent_tasks n) 1"
  by (auto simp add: node_meets_requirements_def score_key_def Let_def)

text \<open>
  Claim C2, as amended. For every task and every list of ready candidate nodes, the
  selection returns the first node that satisfies all three requirements (score at least
  60; a GPU when the lowercased task type is gpu\_inference or training; current load
  below the maximum of concurrent tasks), in the order obtained by sorting the candidates
  by readiness score, descending, candidates of equal score staying in the order of the
  candidate list. If no candidate satisfies them it returns the first candidate of that
  order, a top-scoring one; if there is no candidate it returns nothing.
\<close>

theorem select_optimal_ai_node_order:
  "mset (sorted_reverse score_key available_nodes) = mset available_nodes \<and>
   sorted_wrt (\<lambda>a b. score_key a \<ge> score_key b) (sorted_reverse score_key available_nodes) \<and>
   (\<forall>v. filter (\<lambda>n. score_key n = v) (sorted_reverse score_key available_nodes) =
        filter (\<lambda>n. score_key n = v) available_nodes) \<and>
   select_optimal_ai_node t available_nodes =
     (case find (\<lambda>n. score_key n \<ge> 60 \<and>
                   (lowered_task_type t = ''gpu_inference'' \<or> lowered_task_type t = ''training''
                      \<longrightarrow> get_or (node_gpu_available n) False) \<and>
                   get_or (node_current_load n) 0 < get_or (node_max_concurrent_tasks n) 1)
             (sorted_reverse score_key available_nodes) of
        Some n \<Rightarrow> Some n
      | None \<Rightarrow>
          (case sorted_reverse score_key available_nodes of
             [] \<Rightarrow> None
           | highest # rest \<Rightarrow> Some highest))"
proof -
  have sel: "select_optimal_ai_node t available_nodes =
     (case find (\<lambda>n. node_meets_requirements n (lowered_task_type t))
             (sorted_reverse score_key available_nodes) of
        Some n \<Rightarrow> Some n
      | None \<Rightarrow>
          (case sorted_reverse score_key available_nodes of
             [] \<Rightarrow> None
           | highest # rest \<Rightarrow> Some highest))"
  proof (cases "available_nodes = []")
    case True
    then show ?thesis by (simp add: select_optimal_ai_node_def sorted_reverse_def)
  next
    case False
    then show ?thesis
      by (simp add: select_optimal_ai_node_def Let_def first_meeting_requirements_find)
  qed
  show ?thesis
    unfolding sel
    by (simp add: sorted_reverse_mset sorted_reverse_descending sorted_reverse_stable
        node_meets_requirements_iff)
qed


lemma lower_text_generation: "lower ''text-generation'' = ''text-generation''"
  by code_simp

lemma lower_gpu_inference: "lower ''gpu_inference'' = ''gpu_inference''"
  by code_simp

theorem select_optimal_ai_node_order_witness:
  "lowered_task_type gpu_task = ''gpu_inference'' \<and>
   select_optimal_ai_node gpu_task
     [node_with ''D'' 95 False 5 0, node_with ''E'' 70 True 5 0] =
     Some (node_with ''E'' 70 True 5 0) \<and>
   select_optimal_ai_node gpu_task
     [node_with ''D'' 95 False 5 0, node_with ''E'' 70 True 5 5] =
     Some (node_with ''D'' 95 False 5 0) \<and>
   select_optimal_ai_node text_task
     [node_with ''A'' 72 False 5 0, node_with ''B'' 90 False 5 0, node_with ''C'' 85 False 5 0] =
     Some (node_with ''B'' 90 False 5 0) \<and>
   select_optimal_ai_node text_task [] = None"
  using select_optimal_ai_node_order
      [of "[node_with ''D'' 95 False 5 0, node_with ''E'' 70 True 5 0]" gpu_task]
    select_optimal_ai_node_order
      [of "[node_with ''D'' 95 False 5 0, node_with ''E'' 70 True 5 5]" gpu_task]
    select_optimal_ai_node_order
      [of "[node_with ''A'' 72 False 5 0, node_with ''B'' 90 False 5 0,
            node_with ''C'' 85 False 5 0]" text_task]
    select_optimal_ai_node_order [of "[]" text_task]
  by (simp add: sorted_reverse_def score_key_def node_with_def get_or_def gpu_task_def
      text_task_def lowered_task_type_def lower_gpu_inference lower_text_generation)

text \<open>
  Claim C2 as stated fails on the tie-break: of two candidates with the same score that
  both meet the requirements, the code returns the one that comes first in the candidate
  list, here the one with the higher load and the larger id, where the order by load and
  id gives the other.
\<close>

theorem select_optimal_ai_node_tie_counterexample:
  "select_optimal_ai_node text_task
     [node_with ''n2'' 70 False 5 1, node_with ''n1'' 70 False 5 0] =
     Some (node_with ''n2'' 70 False 5 1) \<and>
   spec_select_node text_task
     [node_with ''n2'' 70 False 5 1, node_with ''n1'' 70 False 5 0] =
     Some (node_with ''n1'' 70 False 5 0) \<and>
   node_with ''n2'' 70 False 5 1 \<noteq> node_with ''n1'' 70 False 5 0"
  by (simp add: select_optimal_ai_node_def spec_select_node_def spec_sorted_nodes_def
      sorted_reverse_def score_key_def node_with_def get_or_def text_task_def
      lowered_task_type_def lower_text_generation node_meets_requirements_def Let_def)

section \<open>Verification: assignment and dispatch\<close>















section \<open>Verification: the task queue driver\<close>

lemma queue_key_le:
  "queue_key a \<le> queue_key b \<longleftrightarrow>
     get_or (priority a) 0 < get_or (priority b) 0 \<or>
     (get_or (priority a) 0 = get_or (priority b) 0 \<and>
      get_or (created_at a) '''' \<le> get_or (created_at b) '''')"
  by (auto simp add: queue_key_def less_eq_prod_def)

lemma sort_key_queue_sorted:
  "sorted_wrt (\<lambda>a b. get_or (priority a) 0 < get_or (priority b) 0 \<or>
       (get_or (priority a) 0 = get_or (priority b) 0 \<and>
        get_or (created_at a) '''' \<le> get_or (created_at b) ''''))
     (sort_key queue_key ts)"
proof -
  have "sorted (map queue_key (sort_key queue_key ts))" by (rule sorted_sort_key)
  then have "sorted_wrt (\<lambda>x y. queue_key x \<le> queue_key y) (sort_key queue_key ts)"
    by (simp add: sorted_map)
  then show ?thesis by (simp add: queue_key_le)
qed

lemma schedule_loop_take:
  "schedule_loop running valid i ts = take (length (schedule_loop running valid i ts)) ts"
  by (induction ts arbitrary: i) auto

lemma schedule_loop_all:
  "\<forall>j. running j \<Longrightarrow> \<forall>t \<in> set ts. valid t \<Longrightarrow> schedule_loop running valid i ts = ts"
  by (induction ts arbitrary: i) auto

text \<open>
  Claim C8, as amended. On each pass the task-queue driver passes the pending tasks to
  the scheduler in order of priority ascending (lower value first), ties broken by
  \<open>created_at\<close> ascending, tasks with equal keys staying in registry order: the tasks
  scheduled are an initial segment of that order, and all of it when the scheduler keeps
  running and every task record is valid.
\<close>

theorem process_task_queue_order:
  "mset (sort_key queue_key pending_tasks) = mset pending_tasks \<and>
   sorted_wrt (\<lambda>a b. get_or (priority a) 0 < get_or (priority b) 0 \<or>
       (get_or (priority a) 0 = get_or (priority b) 0 \<and>
        get_or (created_at a) '''' \<le> get_or (created_at b) ''''))
     (sort_key queue_key pending_tasks) \<and>
   (\<forall>v. filter (\<lambda>t. queue_key t = v) (sort_key queue_key pending_tasks) =
        filter (\<lambda>t. queue_key t = v) pending_tasks) \<and>
   process_task_queue_pass running valid pending_tasks =
     take (length (process_task_queue_pass running valid pending_tasks))
       (sort_key queue_key pending_tasks) \<and>
   ((\<forall>i. running i) \<and> (\<forall>t \<in> set pending_tasks. valid t) \<longrightarrow>
      process_task_queue_pass running valid pending_tasks = sort_key queue_key pending_tasks)"
proof -
  have full: "(\<forall>i. running i) \<and> (\<forall>t \<in> set pending_tasks. valid t) \<longrightarrow>
      process_task_queue_pass running valid pending_tasks = sort_key queue_key pending_tasks"
    using schedule_loop_all [of running "sort_key queue_key pending_tasks" valid 0]
    by (simp add: process_task_queue_pass_def)
  have pre: "process_task_queue_pass running valid pending_tasks =
     take (length (process_task_queue_pass running valid pending_tasks))
       (sort_key queue_key pending_tasks)"
    unfolding process_task_queue_pass_def by (rule schedule_loop_take)
  have stable: "\<forall>v. filter (\<lambda>t. queue_key t = v) (sort_key queue_key pending_tasks) =
        filter (\<lambda>t. queue_key t = v) pending_tasks"
    by (simp only: sort_key_stable) simp
  from full pre stable sort_key_queue_sorted [of pending_tasks] show ?thesis
    by simp
qed

theorem process_task_queue_order_witness:
  "process_task_queue_pass (\<lambda>i. True) (\<lambda>t. True) [urgent_late, minor_early] =
     [minor_early, urgent_late] \<and>
   process_task_queue_pass (\<lambda>i. i < 1) (\<lambda>t. True) [urgent_late, minor_early] = [minor_early]"
  using process_task_queue_order [of "[urgent_late, minor_early]" "\<lambda>i. True" "\<lambda>t. True"]
  by (simp add: process_task_queue_pass_def queue_key_def get_or_def urgent_late_def
      minor_early_def)

text \<open>
  Claim C8 as stated fails on the direction: of a task with priority 5 and an older task
  with priority 1, the code schedules the one with priority 1 first.
\<close>

theorem process_task_queue_priority_counterexample:
  "process_task_queue_pass (\<lambda>i. True) (\<lambda>t. True) [urgent_late, minor_early] =
     [minor_early, urgent_late] \<and>
   spec_queue_order [urgent_late, minor_early] = [urgent_late, minor_early] \<and>
   get_or (priority minor_early) 0 < get_or (priority urgent_late) 0"
  by (simp add: process_task_queue_pass_def spec_queue_order_def queue_key_def get_or_def
      urgent_late_def minor_early_def)

end
